theory Spec2Isabelle
  imports Complex_Main
begin

section \<open>Python values and errors\<close>

text \<open>
  The module \<^verbatim>\<open>utils/utils.py\<close> holds two dictionary lookups and four plotting
  routines. A dictionary key is an integer or a string; a failed subscript raises
  \<^verbatim>\<open>KeyError\<close> carrying the key, a missing attribute raises \<^verbatim>\<open>AttributeError\<close>
  carrying the attribute name, a subscript of the wrong kind or out of range raises
  \<^verbatim>\<open>TypeError\<close> or \<^verbatim>\<open>IndexError\<close>, and the plotting library rejects arguments
  of the wrong shape with \<^verbatim>\<open>ValueError\<close>. Every raise is a value \<open>Inl e\<close>.
\<close>

datatype key = IntKey int | StrKey string

datatype py_error =
  KeyError key | AttributeError string | TypeError | IndexError | ValueError

section \<open>The label codec\<close>

text \<open>
  \<^verbatim>\<open>reservoir_dict_to_str\<close> builds the dictionary \<^verbatim>\<open>int_to_str\<close> and subscripts it
  with its argument; \<^verbatim>\<open>reservoir_dict_to_int\<close> does the same with \<^verbatim>\<open>str_to_int\<close>.
  The dictionaries are local literals, written here as association lists read with
  \<^const>\<open>map_of\<close>. Both functions only build a local value and return: they are pure.
\<close>

definition int_to_str :: "(int \<times> string) list" where
  "int_to_str =
     [(0, ''Timesteps''),
      (1, ''Input Current''),
      (2, ''Membrane Potential''),
      (3, ''Spikes'')]"

definition reservoir_dict_to_str :: "int \<Rightarrow> py_error + string" where
  "reservoir_dict_to_str input =
     (case map_of int_to_str input of
        None \<Rightarrow> Inl (KeyError (IntKey input))
      | Some v \<Rightarrow> Inr v)"

definition str_to_int :: "(string \<times> int) list" where
  "str_to_int =
     [(''Timesteps'', 0),
      (''Input Current'', 1),
      (''Membrane Potential'', 2),
      (''Spikes'', 3)]"

definition reservoir_dict_to_int :: "string \<Rightarrow> py_error + int" where
  "reservoir_dict_to_int input =
     (case map_of str_to_int input of
        None \<Rightarrow> Inl (KeyError (StrKey input))
      | Some v \<Rightarrow> Inr v)"

text \<open>The four labels and the four codes of the codec.\<close>

definition valid_labels :: "string list" where
  "valid_labels = [''Timesteps'', ''Input Current'', ''Membrane Potential'', ''Spikes'']"

definition valid_codes :: "int list" where
  "valid_codes = [0, 1, 2, 3]"

section \<open>The plotting library as a log of calls\<close>

text \<open>
  The four plotting routines compute nothing: they slice their arguments and call
  \<^verbatim>\<open>matplotlib.pyplot\<close>. Their observable behaviour is the sequence of library calls
  they make, with the arguments of each call. A routine is therefore a function that
  returns the pair of its outcome (\<open>Inr ()\<close> for Python's \<^verbatim>\<open>None\<close>, \<open>Inl e\<close> for a
  raised exception) and the calls it made until then, oldest first. Calls made before an
  exception stay in the log, as they stay on the figure.

  The library itself is outside the module. A call into it is recorded, with its
  arguments, when it returns. Two calls can be made to raise by the arguments the module
  passes, and are modelled so: \<^verbatim>\<open>plt.subplots\<close> with zero rows, and \<^verbatim>\<open>plot(x, y)\<close>
  with sequences of different lengths; both raise \<^verbatim>\<open>ValueError\<close> and draw nothing.

  Samples are real numbers (no routine does arithmetic on them). A call on the module
  \<^verbatim>\<open>plt\<close> is \<open>Plt c\<close>; a call on the axes object of row \<open>i\<close> and column \<open>j\<close> of the grid
  returned by \<^verbatim>\<open>plt.subplots\<close> is \<open>OnAx i j c\<close>.
\<close>

text \<open>
  A two-dimensional numpy array: its number of columns and its rows. The shape
  \<open>(R, C)\<close> is \<open>(length (rows a), ncols a)\<close>.
\<close>

record ndarray =
  ncols :: nat
  rows :: "real list list"

text \<open>
  The values \<^verbatim>\<open>plot_results\<close> receives in a results tuple. The routine calls
  \<^verbatim>\<open>spikes.bool()\<close> and subscripts \<^verbatim>\<open>time\<close> with the outcome, so it matters what kind
  of object each is: \<open>Tensor\<close> is a one-dimensional torch tensor that the plotting
  library can read, on the CPU and without gradient (it has the attribute
  \<^verbatim>\<open>bool\<close> and accepts a boolean mask of its own length as subscript), \<open>PyList\<close> is a
  plain Python list (it has no such attribute, and as subscript it accepts what converts
  to an integer, which a tensor does exactly when it has one element).
\<close>

datatype seq = Tensor "real list" | PyList "real list"

datatype plt_call =
    Figure nat nat                                  \<comment> \<open>\<^verbatim>\<open>plt.figure(figsize=(w, h))\<close>\<close>
  | Subplots nat nat nat nat                        \<comment> \<open>\<^verbatim>\<open>plt.subplots(nrows, ncols, figsize=(w, h))\<close>\<close>
  | Title string
  | XLabel string
  | YLabel string
  | PlotSeq "real list" "string option" "string option"
                                                    \<comment> \<open>\<^verbatim>\<open>plt.plot(y, label=, color=)\<close>\<close>
  | PlotGrid ndarray                                \<comment> \<open>\<^verbatim>\<open>plt.plot(y)\<close> with a 2D array\<close>
  | Legend
  | TightLayout
  | Show

datatype ax_call =
    SetTitle string
  | AxPlot "seq option" seq                         \<comment> \<open>\<^verbatim>\<open>ax.plot(x, y)\<close> or \<^verbatim>\<open>ax.plot(y)\<close>\<close>
  | AxHLine real string string string               \<comment> \<open>y, color, linestyle, label\<close>
  | SetXLabel string
  | SetYLabel string
  | AxLegend "string option"                        \<comment> \<open>\<^verbatim>\<open>ax.legend(loc=)\<close>\<close>
  | VLines "real list" real real string real real   \<comment> \<open>positions x (a scalar is one position),
                                                        ymin, ymax, color, linewidth, alpha\<close>

datatype event = Plt plt_call | OnAx nat nat ax_call

type_synonym 'a run = "(py_error + 'a) \<times> event list"

text \<open>
  The line traces a \<^verbatim>\<open>plt.plot\<close> call draws: one for a one-dimensional argument, one per
  column for a two-dimensional one (each column across all rows).
\<close>

definition columns :: "ndarray \<Rightarrow> real list list" where
  "columns a = map (\<lambda>j. map (\<lambda>r. r ! j) (rows a)) [0..<ncols a]"

fun traces_of :: "event \<Rightarrow> real list list" where
  "traces_of (Plt (PlotSeq ys lab col)) = [ys]"
| "traces_of (Plt (PlotGrid a)) = columns a"
| "traces_of _ = []"

definition drawn_traces :: "event list \<Rightarrow> real list list" where
  "drawn_traces evs = concat (map traces_of evs)"

text \<open>The legend label and the colour each one-dimensional \<^verbatim>\<open>plt.plot\<close> call was given.\<close>

fun style_of :: "event \<Rightarrow> (string option \<times> string option) list" where
  "style_of (Plt (PlotSeq ys lab col)) = [(lab, col)]"
| "style_of _ = []"

definition drawn_styles :: "event list \<Rightarrow> (string option \<times> string option) list" where
  "drawn_styles evs = concat (map style_of evs)"

section \<open>The three reservoir plots\<close>

text \<open>
  \<^verbatim>\<open>x_train[:50]\<close> on a list, an array or a tensor is its first 50 elements, or all of
  them when there are fewer: \<^const>\<open>take\<close>. The f-string
  \<^verbatim>\<open>f"Reservoir input: {reservoir_input_feature}"\<close> appends the name to the fixed text.
\<close>

definition plot_reservoir_data ::
    "real list \<Rightarrow> real list \<Rightarrow> string \<Rightarrow> string \<Rightarrow> unit run" where
  "plot_reservoir_data x_train y_train reservoir_input_feature reservoir_target =
     (Inr (),
      [Plt (PlotSeq (take 50 x_train)
              (Some (''Reservoir input: '' @ reservoir_input_feature)) None),
       Plt (PlotSeq (take 50 y_train)
              (Some (''Reservoir target: '' @ reservoir_target)) None),
       Plt Legend,
       Plt Show])"

text \<open>\<^verbatim>\<open>reservoir_states[:, :20]\<close>: every row, cut to its first 20 columns.\<close>

definition first_columns :: "nat \<Rightarrow> ndarray \<Rightarrow> ndarray" where
  "first_columns n a = \<lparr>ncols = min n (ncols a), rows = map (take n) (rows a)\<rparr>"

definition plot_reservoir_activations :: "ndarray \<Rightarrow> unit run" where
  "plot_reservoir_activations reservoir_states =
     (Inr (),
      [Plt (Figure 10 3),
       Plt (Title ''Activation of 20 reservoir neurons.''),
       Plt (YLabel ''Reservoir activations''),
       Plt (XLabel ''Timesteps''),
       Plt (PlotGrid (first_columns 20 reservoir_states)),
       Plt Show])"

definition plot_reservoir_predictions ::
    "real list \<Rightarrow> real list \<Rightarrow> real list \<Rightarrow> string \<Rightarrow> string \<Rightarrow> unit run" where
  "plot_reservoir_predictions x_train y_train y_pred reservoir_input_feature reservoir_target =
     (Inr (),
      [Plt (Figure 10 3),
       Plt (Title ''Comparing real data with the reservoirs prediction.''),
       Plt (XLabel ''Timesteps''),
       Plt (PlotSeq (take 70 x_train)
              (Some (''Reservoir input: '' @ reservoir_input_feature)) (Some ''green'')),
       Plt (PlotSeq y_pred (Some (''Predicted '' @ reservoir_target)) (Some ''blue'')),
       Plt (PlotSeq (take 70 y_train)
              (Some (''Actual '' @ reservoir_target)) (Some ''red'')),
       Plt Legend,
       Plt Show])"


section \<open>The simulation plot\<close>

text \<open>
  A parameter record exposes \<^verbatim>\<open>v_threshold\<close>. \<^verbatim>\<open>param_sets\<close> is a dictionary from
  label to record; \<^verbatim>\<open>results\<close> is a dictionary whose items, in insertion order, are
  pairs of a label and a tuple \<^verbatim>\<open>(time, input_current, membrane_potential, spikes)\<close>.
  The routine reads \<^verbatim>\<open>results\<close> only through \<^verbatim>\<open>len\<close> and \<^verbatim>\<open>items()\<close>, so it is
  given as the list of its items.
\<close>

record params =
  v_threshold :: real

type_synonym entry = "string \<times> seq \<times> seq \<times> seq \<times> seq"

fun seq_len :: "seq \<Rightarrow> nat" where
  "seq_len (Tensor xs) = length xs"
| "seq_len (PyList xs) = length xs"

text \<open>
  \<^verbatim>\<open>plt.subplots(nr, nc, figsize=(w, h))\<close> refuses a grid without rows or columns.
\<close>

definition plt_subplots :: "nat \<Rightarrow> nat \<Rightarrow> nat \<Rightarrow> nat \<Rightarrow> py_error + event" where
  "plt_subplots nr nc w h =
     (if nr = 0 \<or> nc = 0 then Inl ValueError else Inr (Plt (Subplots nr nc w h)))"

text \<open>\<^verbatim>\<open>ax.plot(x, y)\<close> refuses \<open>x\<close> and \<open>y\<close> of different lengths.\<close>

definition ax_plot_xy :: "seq \<Rightarrow> seq \<Rightarrow> py_error + ax_call" where
  "ax_plot_xy x y = (if seq_len x = seq_len y then Inr (AxPlot (Some x) y) else Inl ValueError)"

text \<open>
  \<^verbatim>\<open>spikes.bool()\<close>: a tensor is converted elementwise (nonzero is true); a list has no
  such attribute.
\<close>

fun bool_method :: "seq \<Rightarrow> py_error + bool list" where
  "bool_method (Tensor xs) = Inr (map (\<lambda>x. x \<noteq> 0) xs)"
| "bool_method (PyList xs) = Inl (AttributeError ''bool'')"

text \<open>
  \<^verbatim>\<open>time[bmask]\<close> where \<open>bmask\<close> is a boolean tensor. A tensor yields its elements at
  the true positions and refuses a mask of another length. A list converts the subscript
  to an integer: a one-element mask becomes the index 0 (false) or 1 (true), which
  selects that one element or is out of range; a mask of any other size does not convert.
\<close>

fun mask_index :: "seq \<Rightarrow> bool list \<Rightarrow> py_error + real list" where
  "mask_index (Tensor ts) bmask =
     (if length bmask = length ts then Inr (map fst (filter snd (zip ts bmask)))
      else Inl IndexError)"
| "mask_index (PyList ts) [b] =
     (let k = (if b then 1 else 0)
      in if k < length ts then Inr [ts ! k] else Inl IndexError)"
| "mask_index (PyList ts) bmask = Inl TypeError"

text \<open>The statement \<^verbatim>\<open>spike_times = time[spikes.bool()]\<close> (lines 166 and 203).\<close>

definition spike_times :: "seq \<Rightarrow> seq \<Rightarrow> py_error + real list" where
  "spike_times time spikes =
     (case bool_method spikes of
        Inl err \<Rightarrow> Inl err
      | Inr bmask \<Rightarrow> mask_index time bmask)"

text \<open>The calls made so far on the axes of row \<open>i\<close>, column \<open>j\<close>.\<close>

fun on_axes :: "nat \<Rightarrow> nat \<Rightarrow> event list \<Rightarrow> ax_call list" where
  "on_axes i j [] = []"
| "on_axes i j (Plt c # evs) = on_axes i j evs"
| "on_axes i j (OnAx i' j' c # evs) =
     (if i' = i \<and> j' = j then c # on_axes i j evs else on_axes i j evs)"

text \<open>
  The body of the loop in the branch \<^verbatim>\<open>num_sets == 1\<close> (lines 146 to 174): \<^verbatim>\<open>axs1\<close> is
  the axes \<open>(0, 0)\<close> and \<^verbatim>\<open>axs2\<close> the axes \<open>(0, 1)\<close>. Each \<^verbatim>\<open>plot\<close> call may raise. The
  subscript \<^verbatim>\<open>param_sets[label]\<close> is evaluated as an argument of \<^verbatim>\<open>axhline\<close>, after
  both \<^verbatim>\<open>plot\<close> calls. \<^verbatim>\<open>get_ylim\<close> belongs to the plotting library: it is a parameter,
  a function of the calls made on that axes so far.
\<close>

definition row_single ::
    "(ax_call list \<Rightarrow> real \<times> real) \<Rightarrow> (string \<rightharpoonup> params) \<Rightarrow> nat \<Rightarrow> entry \<Rightarrow> event list \<Rightarrow> unit run" where
  "row_single get_ylim param_sets i e s =
     (case e of (label, time, input_current, membrane_potential, spikes) \<Rightarrow>
        let s1 = s @ [OnAx 0 0 (SetTitle (label @ '' - Input Current''))]
        in (case ax_plot_xy time input_current of
              Inl err \<Rightarrow> (Inl err, s1)
            | Inr plot1 \<Rightarrow>
                let s2 = s1 @
                      [OnAx 0 0 plot1,
                       OnAx 0 0 (SetXLabel ''Timesteps''),
                       OnAx 0 0 (SetYLabel ''Current''),
                       OnAx 0 1 (SetTitle (label @ '' - Membrane Potential''))]
                in (case ax_plot_xy time membrane_potential of
                      Inl err \<Rightarrow> (Inl err, s2)
                    | Inr plot2 \<Rightarrow>
                        let s3 = s2 @ [OnAx 0 1 plot2]
                        in (case param_sets label of
                              None \<Rightarrow> (Inl (KeyError (StrKey label)), s3)
                            | Some p \<Rightarrow>
                                let s4 = s3 @
                                      [OnAx 0 1 (AxHLine (v_threshold p) ''r'' ''--'' ''Threshold''),
                                       OnAx 0 1 (SetXLabel ''Timesteps''),
                                       OnAx 0 1 (SetYLabel ''Voltage''),
                                       OnAx 0 1 (AxLegend None)]
                                in (case spike_times time spikes of
                                      Inl err \<Rightarrow> (Inl err, s4)
                                    | Inr xs \<Rightarrow>
                                        (Inr (),
                                         s4 @ [OnAx 0 1 (VLines xs
                                                 (fst (get_ylim (on_axes 0 1 s4)))
                                                 (snd (get_ylim (on_axes 0 1 s4)))
                                                 ''r'' (1 / 2) (1 / 2))]))))))"

text \<open>
  The body of the loop in the other branch (lines 180 to 211), on the axes of row \<open>i\<close>.
  Here \<^verbatim>\<open>plot\<close> is given the data alone.
\<close>

definition row_multi ::
    "(ax_call list \<Rightarrow> real \<times> real) \<Rightarrow> (string \<rightharpoonup> params) \<Rightarrow> nat \<Rightarrow> entry \<Rightarrow> event list \<Rightarrow> unit run" where
  "row_multi get_ylim param_sets i e s =
     (case e of (label, time, input_current, membrane_potential, spikes) \<Rightarrow>
        let s3 = s @
              [OnAx i 0 (SetTitle (label @ '' - Input Current'')),
               OnAx i 0 (AxPlot None input_current),
               OnAx i 0 (SetXLabel ''Timesteps''),
               OnAx i 0 (SetYLabel ''Current''),
               OnAx i 1 (SetTitle (label @ '' - Membrane Potential'')),
               OnAx i 1 (AxPlot None membrane_potential)]
        in (case param_sets label of
              None \<Rightarrow> (Inl (KeyError (StrKey label)), s3)
            | Some p \<Rightarrow>
                let s4 = s3 @
                      [OnAx i 1 (AxHLine (v_threshold p) ''r'' ''--'' ''Threshold''),
                       OnAx i 1 (AxHLine 0 ''grey'' ''--'' ''RP''),
                       OnAx i 1 (SetXLabel ''Timesteps''),
                       OnAx i 1 (SetYLabel ''Membrane Potential''),
                       OnAx i 1 (AxLegend (Some ''upper right''))]
                in (case spike_times time spikes of
                      Inl err \<Rightarrow> (Inl err, s4)
                    | Inr xs \<Rightarrow>
                        (Inr (),
                         s4 @ [OnAx i 1 (VLines xs
                                 (fst (get_ylim (on_axes i 1 s4)))
                                 (snd (get_ylim (on_axes i 1 s4)))
                                 ''r'' 1 (1 / 2))]))))"

text \<open>
  \<^verbatim>\<open>for i, item in enumerate(results.items())\<close>: the body runs on each item in order
  with its index, and an exception in the body ends the loop.
\<close>

fun for_rows ::
    "(nat \<Rightarrow> entry \<Rightarrow> event list \<Rightarrow> unit run) \<Rightarrow> nat \<Rightarrow> entry list \<Rightarrow> event list \<Rightarrow> unit run" where
  "for_rows body i [] s = (Inr (), s)"
| "for_rows body i (e # es) s =
     (case body i e s of
        (Inl err, s') \<Rightarrow> (Inl err, s')
      | (Inr u, s') \<Rightarrow> for_rows body (Suc i) es s')"

definition plot_results ::
    "(ax_call list \<Rightarrow> real \<times> real) \<Rightarrow> entry list \<Rightarrow> (string \<rightharpoonup> params) \<Rightarrow> unit run" where
  "plot_results get_ylim results param_sets =
     (let num_sets = length results
      in case plt_subplots num_sets 2 10 (3 * num_sets) of
           Inl err \<Rightarrow> (Inl err, [])
         | Inr fig \<Rightarrow>
             (case (if num_sets = 1
                    then for_rows (row_single get_ylim param_sets) 0 results [fig]
                    else for_rows (row_multi get_ylim param_sets) 0 results [fig]) of
                (Inl err, s) \<Rightarrow> (Inl err, s)
              | (Inr u, s) \<Rightarrow> (Inr (), s @ [Plt TightLayout, Plt Show])))"





text \<open>A fixed answer for \<^verbatim>\<open>get_ylim\<close>, to run the routine on.\<close>

definition unit_ylim :: "ax_call list \<Rightarrow> real \<times> real" where
  "unit_ylim cs = (0, 1)"

section \<open>Notions for stating and proving the properties of the simulation plot\<close>

text \<open>
  The calls one pass of the loop body makes, in three parts: those before the subscript
  \<^verbatim>\<open>param_sets[label]\<close> (\<open>row_head\<close>), those between it and \<^verbatim>\<open>spikes.bool()\<close>
  (\<open>mid_single\<close>, \<open>mid_multi\<close>), and the \<^verbatim>\<open>vlines\<close> call. The argument \<open>x\<close> is the
  first argument of \<^verbatim>\<open>plot\<close>, when there is one.
\<close>

definition row_head :: "nat \<Rightarrow> string \<Rightarrow> seq option \<Rightarrow> seq \<Rightarrow> seq \<Rightarrow> event list" where
  "row_head a label x input_current membrane_potential =
     [OnAx a 0 (SetTitle (label @ '' - Input Current'')),
      OnAx a 0 (AxPlot x input_current),
      OnAx a 0 (SetXLabel ''Timesteps''),
      OnAx a 0 (SetYLabel ''Current''),
      OnAx a 1 (SetTitle (label @ '' - Membrane Potential'')),
      OnAx a 1 (AxPlot x membrane_potential)]"

definition mid_single :: "params \<Rightarrow> event list" where
  "mid_single p =
     [OnAx 0 1 (AxHLine (v_threshold p) ''r'' ''--'' ''Threshold''),
      OnAx 0 1 (SetXLabel ''Timesteps''),
      OnAx 0 1 (SetYLabel ''Voltage''),
      OnAx 0 1 (AxLegend None)]"

definition mid_multi :: "nat \<Rightarrow> params \<Rightarrow> event list" where
  "mid_multi i p =
     [OnAx i 1 (AxHLine (v_threshold p) ''r'' ''--'' ''Threshold''),
      OnAx i 1 (AxHLine 0 ''grey'' ''--'' ''RP''),
      OnAx i 1 (SetXLabel ''Timesteps''),
      OnAx i 1 (SetYLabel ''Membrane Potential''),
      OnAx i 1 (AxLegend (Some ''upper right''))]"


text \<open>
  The two branches of \<^const>\<open>plot_results\<close> as one loop body indexed by \<^verbatim>\<open>num_sets\<close>,
  with what differs between them: the first argument of \<^verbatim>\<open>plot\<close>, the calls after the
  lookup, and the line width of the markers.
\<close>

definition x_arg :: "nat \<Rightarrow> seq \<Rightarrow> seq option" where
  "x_arg n time = (if n = 1 then Some time else None)"

definition row_mid :: "nat \<Rightarrow> nat \<Rightarrow> params \<Rightarrow> event list" where
  "row_mid n i p = (if n = 1 then mid_single p else mid_multi i p)"

definition line_width :: "nat \<Rightarrow> real" where
  "line_width n = (if n = 1 then 1 / 2 else 1)"

definition loop_body ::
    "(ax_call list \<Rightarrow> real \<times> real) \<Rightarrow> (string \<rightharpoonup> params) \<Rightarrow> nat \<Rightarrow> nat \<Rightarrow> entry \<Rightarrow> event list \<Rightarrow> unit run" where
  "loop_body gy ps n = (if n = 1 then row_single gy ps else row_multi gy ps)"

text \<open>
  The calls a pass makes on the input-current axes of its row when both \<^verbatim>\<open>plot\<close> calls
  return (\<open>input_calls\<close>), and those it makes in any case once it is reached
  (\<open>input_reached\<close>): in the single-entry branch \<^verbatim>\<open>plot(time, input_current)\<close> raises
  when the two lengths differ, and only the title has been set.
\<close>

definition input_calls :: "nat \<Rightarrow> entry \<Rightarrow> ax_call list" where
  "input_calls n e =
     (case e of (label, time, input_current, membrane_potential, spikes) \<Rightarrow>
        [SetTitle (label @ '' - Input Current''),
         AxPlot (if n = 1 then Some time else None) input_current,
         SetXLabel ''Timesteps'',
         SetYLabel ''Current''])"

definition input_reached :: "nat \<Rightarrow> entry \<Rightarrow> ax_call list" where
  "input_reached n e =
     (case e of (label, time, input_current, membrane_potential, spikes) \<Rightarrow>
        if n = 1 \<and> seq_len time \<noteq> seq_len input_current
        then [SetTitle (label @ '' - Input Current'')]
        else input_calls n e)"





text \<open>Small inputs on which the routine is run.\<close>

definition demo_entry :: "string \<Rightarrow> entry" where
  "demo_entry label = (label, Tensor [0, 1, 2], Tensor [5, 5, 5], Tensor [0, 2, 0], Tensor [0, 1, 0])"

definition demo_params :: "string \<rightharpoonup> params" where
  "demo_params = [''a'' \<mapsto> \<lparr>v_threshold = 1\<rparr>, ''b'' \<mapsto> \<lparr>v_threshold = 2\<rparr>]"

section \<open>Properties of the label codec\<close>

lemma to_int_values:
  "reservoir_dict_to_int ''Timesteps'' = Inr 0"
  "reservoir_dict_to_int ''Input Current'' = Inr 1"
  "reservoir_dict_to_int ''Membrane Potential'' = Inr 2"
  "reservoir_dict_to_int ''Spikes'' = Inr 3"
  by (simp_all add: reservoir_dict_to_int_def str_to_int_def)

lemma to_str_values:
  "reservoir_dict_to_str 0 = Inr ''Timesteps''"
  "reservoir_dict_to_str 1 = Inr ''Input Current''"
  "reservoir_dict_to_str 2 = Inr ''Membrane Potential''"
  "reservoir_dict_to_str 3 = Inr ''Spikes''"
  by (simp_all add: reservoir_dict_to_str_def int_to_str_def)

lemma to_int_miss:
  "l \<notin> set valid_labels \<Longrightarrow> reservoir_dict_to_int l = Inl (KeyError (StrKey l))"
  by (simp add: reservoir_dict_to_int_def str_to_int_def valid_labels_def)

lemma to_str_miss:
  "c \<notin> set valid_codes \<Longrightarrow> reservoir_dict_to_str c = Inl (KeyError (IntKey c))"
  by (simp add: reservoir_dict_to_str_def int_to_str_def valid_codes_def)

text \<open>
  C1. Round trip: each of the four labels is sent to a code that \<^const>\<open>reservoir_dict_to_str\<close>
  sends back to the same label, and each of the four codes is sent to a label that
  \<^const>\<open>reservoir_dict_to_int\<close> sends back to the same code. The two functions are pure
  functions of their argument, so there is no effect to speak of.
\<close>

theorem codec_round_trip:
  "(l \<in> set valid_labels \<longrightarrow>
      (\<exists>c. reservoir_dict_to_int l = Inr c \<and> reservoir_dict_to_str c = Inr l)) \<and>
   (c \<in> set valid_codes \<longrightarrow>
      (\<exists>l'. reservoir_dict_to_str c = Inr l' \<and> reservoir_dict_to_int l' = Inr c))"
proof (intro conjI impI)
  assume "l \<in> set valid_labels"
  then consider "l = ''Timesteps''" | "l = ''Input Current''"
    | "l = ''Membrane Potential''" | "l = ''Spikes''"
    by (auto simp: valid_labels_def)
  then show "\<exists>c. reservoir_dict_to_int l = Inr c \<and> reservoir_dict_to_str c = Inr l"
    by cases (simp_all add: to_int_values to_str_values)
next
  assume "c \<in> set valid_codes"
  then consider "c = 0" | "c = 1" | "c = 2" | "c = 3"
    by (auto simp: valid_codes_def)
  then show "\<exists>l'. reservoir_dict_to_str c = Inr l' \<and> reservoir_dict_to_int l' = Inr c"
    by cases (simp_all add: to_int_values to_str_values)
qed

theorem codec_round_trip_witness:
  "''Spikes'' \<in> set valid_labels \<and> 3 \<in> set valid_codes \<and>
   (\<exists>c. reservoir_dict_to_int ''Spikes'' = Inr c \<and> reservoir_dict_to_str c = Inr ''Spikes'') \<and>
   (\<exists>l'. reservoir_dict_to_str 3 = Inr l' \<and> reservoir_dict_to_int l' = Inr 3)"
proof -
  have a: "''Spikes'' \<in> set valid_labels" by (simp add: valid_labels_def)
  have b: "3 \<in> set valid_codes" by (simp add: valid_codes_def)
  from a b codec_round_trip [of "''Spikes''" 3] show ?thesis by blast
qed

text \<open>
  C4. A string that is not one of the four labels makes \<^const>\<open>reservoir_dict_to_int\<close>
  raise the lookup error \<^verbatim>\<open>KeyError\<close> for that string, and an integer outside
  \<open>{0, 1, 2, 3}\<close> makes \<^const>\<open>reservoir_dict_to_str\<close> raise \<^verbatim>\<open>KeyError\<close> for that
  integer.
\<close>

theorem codec_unknown_fails:
  "(l \<notin> {''Timesteps'', ''Input Current'', ''Membrane Potential'', ''Spikes''} \<longrightarrow>
      reservoir_dict_to_int l = Inl (KeyError (StrKey l))) \<and>
   (c \<notin> {0, 1, 2, 3} \<longrightarrow> reservoir_dict_to_str c = Inl (KeyError (IntKey c)))"
  using to_int_miss [of l] to_str_miss [of c]
  by (simp add: valid_labels_def valid_codes_def)

theorem codec_unknown_fails_witness:
  "''bogus'' \<notin> {''Timesteps'', ''Input Current'', ''Membrane Potential'', ''Spikes''} \<and>
   (99::int) \<notin> {0, 1, 2, 3} \<and>
   reservoir_dict_to_int ''bogus'' = Inl (KeyError (StrKey ''bogus'')) \<and>
   reservoir_dict_to_str 99 = Inl (KeyError (IntKey 99))"
  using codec_unknown_fails [of "''bogus''" 99] by simp

text \<open>
  C9. The mapping itself: \<^const>\<open>reservoir_dict_to_int\<close> sends the four labels to
  0, 1, 2, 3 in this order, \<^const>\<open>reservoir_dict_to_str\<close> sends the four codes back to
  the same four strings, and the inputs on which each function returns are exactly
  those four.
\<close>

theorem codec_table:
  "reservoir_dict_to_int ''Timesteps'' = Inr 0 \<and>
   reservoir_dict_to_int ''Input Current'' = Inr 1 \<and>
   reservoir_dict_to_int ''Membrane Potential'' = Inr 2 \<and>
   reservoir_dict_to_int ''Spikes'' = Inr 3 \<and>
   reservoir_dict_to_str 0 = Inr ''Timesteps'' \<and>
   reservoir_dict_to_str 1 = Inr ''Input Current'' \<and>
   reservoir_dict_to_str 2 = Inr ''Membrane Potential'' \<and>
   reservoir_dict_to_str 3 = Inr ''Spikes'' \<and>
   {l. \<exists>c. reservoir_dict_to_int l = Inr c} =
     {''Timesteps'', ''Input Current'', ''Membrane Potential'', ''Spikes''} \<and>
   {c. \<exists>l. reservoir_dict_to_str c = Inr l} = {0, 1, 2, 3}"
proof -
  have "(\<exists>c. reservoir_dict_to_int l = Inr c) \<longleftrightarrow> l \<in> set valid_labels" for l
    using to_int_miss [of l]
    by (cases "l \<in> set valid_labels") (auto simp: valid_labels_def to_int_values)
  moreover have "(\<exists>l. reservoir_dict_to_str c = Inr l) \<longleftrightarrow> c \<in> set valid_codes" for c
    using to_str_miss [of c]
    by (cases "c \<in> set valid_codes") (auto simp: valid_codes_def to_str_values)
  ultimately show ?thesis
    by (auto simp: to_int_values to_str_values valid_labels_def valid_codes_def)
qed

section \<open>Properties of the reservoir plots\<close>

lemma columns_first_columns:
  "columns (first_columns n a) = map (\<lambda>j. map (\<lambda>r. r ! j) (rows a)) [0..<min n (ncols a)]"
  by (simp add: columns_def first_columns_def)

text \<open>
  C7. \<^const>\<open>plot_reservoir_data\<close> returns \<^verbatim>\<open>None\<close> without raising, whatever the lengths.
  It draws exactly two traces, the first \<open>min 50 (length x_train)\<close> samples of
  \<^verbatim>\<open>x_train\<close> and the first \<open>min 50 (length y_train)\<close> samples of \<^verbatim>\<open>y_train\<close>, with the
  legend labels "Reservoir input: " and "Reservoir target: " followed by the given names.
\<close>

theorem plot_reservoir_data_traces:
  "fst (plot_reservoir_data x_train y_train fname tname) = Inr () \<and>
   drawn_traces (snd (plot_reservoir_data x_train y_train fname tname)) =
     [take 50 x_train, take 50 y_train] \<and>
   map length (drawn_traces (snd (plot_reservoir_data x_train y_train fname tname))) =
     [min 50 (length x_train), min 50 (length y_train)] \<and>
   map fst (drawn_styles (snd (plot_reservoir_data x_train y_train fname tname))) =
     [Some (''Reservoir input: '' @ fname), Some (''Reservoir target: '' @ tname)]"
  by (simp add: plot_reservoir_data_def drawn_traces_def drawn_styles_def min.commute)

text \<open>
  C8. For an array of shape \<open>(R, C)\<close>, \<^const>\<open>plot_reservoir_activations\<close> returns without
  raising and draws exactly \<open>min 20 C\<close> traces, trace \<open>j\<close> being column \<open>j\<close> of the array
  over all \<open>R\<close> rows; so each trace has \<open>R\<close> samples.
\<close>

theorem plot_reservoir_activations_traces:
  "fst (plot_reservoir_activations a) = Inr () \<and>
   drawn_traces (snd (plot_reservoir_activations a)) =
     map (\<lambda>j. map (\<lambda>r. r ! j) (rows a)) [0..<min 20 (ncols a)] \<and>
   length (drawn_traces (snd (plot_reservoir_activations a))) = min 20 (ncols a) \<and>
   map length (drawn_traces (snd (plot_reservoir_activations a))) =
     replicate (min 20 (ncols a)) (length (rows a))"
proof -
  have tr: "drawn_traces (snd (plot_reservoir_activations a)) = columns (first_columns 20 a)"
    by (simp add: plot_reservoir_activations_def drawn_traces_def)
  have cols: "columns (first_columns 20 a) =
      map (\<lambda>j. map (\<lambda>r. r ! j) (rows a)) [0..<min 20 (ncols a)]"
    by (rule columns_first_columns)
  have lens: "map length (map (\<lambda>j. map (\<lambda>r. r ! j) (rows a)) [0..<m]) =
      replicate m (length (rows a))" for m
    by (simp add: comp_def map_replicate_const)
  show ?thesis
    unfolding tr cols lens by (simp add: plot_reservoir_activations_def)
qed

text \<open>
  C6. \<^const>\<open>plot_reservoir_predictions\<close> returns without raising and draws exactly three
  traces: the first \<open>min 70 (length x_train)\<close> samples of \<^verbatim>\<open>x_train\<close> in green, all of
  \<^verbatim>\<open>y_pred\<close> in blue, and the first \<open>min 70 (length y_train)\<close> samples of \<^verbatim>\<open>y_train\<close>
  in red.
\<close>

theorem plot_reservoir_predictions_traces:
  "fst (plot_reservoir_predictions x_train y_train y_pred fname tname) = Inr () \<and>
   drawn_traces (snd (plot_reservoir_predictions x_train y_train y_pred fname tname)) =
     [take 70 x_train, y_pred, take 70 y_train] \<and>
   map length (drawn_traces (snd (plot_reservoir_predictions x_train y_train y_pred fname tname))) =
     [min 70 (length x_train), length y_pred, min 70 (length y_train)] \<and>
   map snd (drawn_styles (snd (plot_reservoir_predictions x_train y_train y_pred fname tname))) =
     [Some ''green'', Some ''blue'', Some ''red'']"
  by (simp add: plot_reservoir_predictions_def drawn_traces_def drawn_styles_def min.commute)


section \<open>Properties of the simulation plot\<close>

subsection \<open>The loop and its body\<close>

text \<open>
  A rule for the loop: an invariant \<open>Inv k\<close> of the log after \<open>k\<close> passes, kept by each
  pass that returns, and a condition \<open>Fail\<close> on the error and the log established by a
  pass that raises.
\<close>

lemma on_axes_append: "on_axes i j (xs @ ys) = on_axes i j xs @ on_axes i j ys"
  by (induction i j xs rule: on_axes.induct) auto

lemma for_rows_rule:
  assumes "for_rows body i0 es s0 = (r, s')"
    and "Inv 0 s0"
    and "\<And>k s r1 s1. k < length es \<Longrightarrow> Inv k s \<Longrightarrow> body (i0 + k) (es ! k) s = (r1, s1) \<Longrightarrow>
           (case r1 of Inr u \<Rightarrow> Inv (Suc k) s1 | Inl err \<Rightarrow> Fail err s1)"
  shows "case r of Inr u \<Rightarrow> Inv (length es) s' | Inl err \<Rightarrow> Fail err s'"
  using assms
proof (induction es arbitrary: i0 s0 Inv)
  case Nil
  then show ?case by auto
next
  case (Cons e es)
  obtain r1 s1 where b: "body i0 e s0 = (r1, s1)" by (cases "body i0 e s0")
  have st: "case r1 of Inr u \<Rightarrow> Inv (Suc 0) s1 | Inl err \<Rightarrow> Fail err s1"
    using Cons.prems(3) [of 0 s0 r1 s1] Cons.prems(2) b by simp
  show ?case
  proof (cases r1)
    case (Inl err)
    with b Cons.prems(1) st show ?thesis by auto
  next
    case (Inr u)
    with b Cons.prems(1) have run: "for_rows body (Suc i0) es s1 = (r, s')" by simp
    have "case r of Inr u \<Rightarrow> Inv (Suc (length es)) s' | Inl err \<Rightarrow> Fail err s'"
    proof (rule Cons.IH [where Inv = "\<lambda>k. Inv (Suc k)" and ?i0.0 = "Suc i0" and ?s0.0 = s1])
      show "for_rows body (Suc i0) es s1 = (r, s')" by (rule run)
      show "Inv (Suc 0) s1" using st Inr by simp
    next
      fix k s r2 s2
      assume "k < length es" "Inv (Suc k) s" "body (Suc i0 + k) (es ! k) s = (r2, s2)"
      then show "case r2 of Inr u \<Rightarrow> Inv (Suc (Suc k)) s2 | Inl err \<Rightarrow> Fail err s2"
        using Cons.prems(3) [of "Suc k" s r2 s2] by simp
    qed
    then show ?thesis by (cases r) simp_all
  qed
qed










text \<open>Each pass of the body ends in one of four ways.\<close>

lemma loop_body_cases:
  assumes "loop_body gy ps n i (label, time, ic, mp, sp) s = (r, s')" and "n = 1 \<longrightarrow> i = 0"
  obtains
    (plotfail) k where "n = 1"
      "k = 1 \<and> seq_len time \<noteq> seq_len ic \<or>
       k = 5 \<and> seq_len time = seq_len ic \<and> seq_len time \<noteq> seq_len mp"
      "r = Inl ValueError" "s' = s @ take k (row_head i label (x_arg n time) ic mp)"
  | (missing) "n = 1 \<longrightarrow> seq_len time = seq_len ic \<and> seq_len time = seq_len mp"
      "ps label = None" "r = Inl (KeyError (StrKey label))"
      "s' = s @ row_head i label (x_arg n time) ic mp"
  | (bad) p err where "n = 1 \<longrightarrow> seq_len time = seq_len ic \<and> seq_len time = seq_len mp"
      "ps label = Some p" "spike_times time sp = Inl err" "r = Inl err"
      "s' = s @ row_head i label (x_arg n time) ic mp @ row_mid n i p"
  | (ok) p xs where "n = 1 \<longrightarrow> seq_len time = seq_len ic \<and> seq_len time = seq_len mp"
      "ps label = Some p" "spike_times time sp = Inr xs" "r = Inr ()"
      "s' = (s @ row_head i label (x_arg n time) ic mp @ row_mid n i p) @
         [OnAx i 1 (VLines xs
            (fst (gy (on_axes i 1 (s @ row_head i label (x_arg n time) ic mp @ row_mid n i p))))
            (snd (gy (on_axes i 1 (s @ row_head i label (x_arg n time) ic mp @ row_mid n i p))))
            ''r'' (line_width n) (1 / 2))]"
proof (cases "n = 1 \<and> seq_len time \<noteq> seq_len ic")
  case True
  with assms show ?thesis
    by (intro plotfail [of 1])
       (auto simp: Let_def loop_body_def row_single_def ax_plot_xy_def row_head_def)
next
  case ic: False
  show ?thesis
  proof (cases "n = 1 \<and> seq_len time \<noteq> seq_len mp")
    case True
    with assms ic show ?thesis
      by (intro plotfail [of 5])
         (auto simp: Let_def loop_body_def row_single_def ax_plot_xy_def row_head_def x_arg_def)
  next
    case mp: False
    from ic mp have lens: "n = 1 \<longrightarrow> seq_len time = seq_len ic \<and> seq_len time = seq_len mp"
      by blast
    show ?thesis
    proof (cases "ps label")
      case None
      with assms lens show ?thesis
        by (intro missing)
           (auto simp: Let_def loop_body_def row_single_def row_multi_def ax_plot_xy_def row_head_def
              x_arg_def split: if_splits)
    next
      case (Some p)
      show ?thesis
      proof (cases "spike_times time sp")
        case (Inl err)
        with Some assms lens show ?thesis
          by (intro bad [of p err])
             (auto simp: Let_def loop_body_def row_single_def row_multi_def ax_plot_xy_def row_head_def
                row_mid_def mid_single_def mid_multi_def x_arg_def split: if_splits)
      next
        case (Inr xs)
        with Some assms lens show ?thesis
          by (intro ok [of p xs])
             (auto simp: Let_def loop_body_def row_single_def row_multi_def ax_plot_xy_def row_head_def
                row_mid_def mid_single_def mid_multi_def x_arg_def line_width_def
                split: if_splits)
      qed
    qed
  qed
qed


lemma plot_results_loop:
  "results \<noteq> [] \<Longrightarrow> plot_results gy results ps =
     (case for_rows (loop_body gy ps (length results)) 0 results
             [Plt (Subplots (length results) 2 10 (3 * length results))] of
        (Inl err, s) \<Rightarrow> (Inl err, s)
      | (Inr u, s) \<Rightarrow> (Inr (), s @ [Plt TightLayout, Plt Show]))"
  by (simp add: plot_results_def plt_subplots_def loop_body_def Let_def)

lemma plot_results_rule:
  assumes run: "plot_results gy results ps = (r, evs)"
    and nonempty: "results \<noteq> []"
    and init: "Inv 0 [Plt (Subplots (length results) 2 10 (3 * length results))]"
    and step: "\<And>k s r1 s1. k < length results \<Longrightarrow> Inv k s \<Longrightarrow>
           loop_body gy ps (length results) k (results ! k) s = (r1, s1) \<Longrightarrow>
           (case r1 of Inr u \<Rightarrow> Inv (Suc k) s1 | Inl err \<Rightarrow> Fail err s1)"
    and finish: "\<And>s. Inv (length results) s \<Longrightarrow> Done (s @ [Plt TightLayout, Plt Show])"
  shows "case r of Inr u \<Rightarrow> Done evs | Inl err \<Rightarrow> Fail err evs"
proof -
  obtain r0 s0 where loop: "for_rows (loop_body gy ps (length results)) 0 results
      [Plt (Subplots (length results) 2 10 (3 * length results))] = (r0, s0)"
    by (cases "for_rows (loop_body gy ps (length results)) 0 results
      [Plt (Subplots (length results) 2 10 (3 * length results))]")
  have post: "case r0 of Inr u \<Rightarrow> Inv (length results) s0 | Inl err \<Rightarrow> Fail err s0"
  proof (rule for_rows_rule [OF loop, where Inv = Inv])
    show "Inv 0 [Plt (Subplots (length results) 2 10 (3 * length results))]" by (rule init)
  next
    fix k s r1 s1
    assume "k < length results" "Inv k s"
      "loop_body gy ps (length results) (0 + k) (results ! k) s = (r1, s1)"
    then show "case r1 of Inr u \<Rightarrow> Inv (Suc k) s1 | Inl err \<Rightarrow> Fail err s1"
      using step [of k s r1 s1] by simp
  qed
  show ?thesis
  proof (cases r0)
    case (Inl err)
    with run loop post nonempty show ?thesis by (cases r) (auto simp: plot_results_loop)
  next
    case (Inr u)
    with run loop post nonempty finish [of s0] show ?thesis
      by (cases r) (auto simp: plot_results_loop)
  qed
qed

subsection \<open>The calls of one pass\<close>

lemma on_axes_row_head:
  "on_axes a j (row_head i label x ic mp) =
     (if a = i \<and> j = 0 then
        [SetTitle (label @ '' - Input Current''), AxPlot x ic,
         SetXLabel ''Timesteps'', SetYLabel ''Current'']
      else if a = i \<and> j = 1 then
        [SetTitle (label @ '' - Membrane Potential''), AxPlot x mp]
      else [])"
  by (simp add: row_head_def)

lemma on_axes_row_mid_0: "n = 1 \<longrightarrow> i = 0 \<Longrightarrow> on_axes a 0 (row_mid n i p) = []"
  by (simp add: row_mid_def mid_single_def mid_multi_def)




subsection \<open>Outcome of a call\<close>





subsection \<open>The input-current axes\<close>

lemma input_reached_head:
  assumes "n = 1 \<longrightarrow> seq_len time = seq_len ic"
  shows "on_axes a 0 (row_head i label (x_arg n time) ic mp) =
     (if a = i then input_reached n (label, time, ic, mp, sp) else [])"
  using assms by (auto simp: on_axes_row_head input_reached_def input_calls_def x_arg_def)

lemma input_reached_take:
  assumes "n = 1" "k = 1 \<and> seq_len time \<noteq> seq_len ic \<or>
       k = 5 \<and> seq_len time = seq_len ic \<and> seq_len time \<noteq> seq_len mp"
  shows "on_axes a 0 (take k (row_head i label (x_arg n time) ic mp)) =
     (if a = i then input_reached n (label, time, ic, mp, sp) else [])"
  using assms by (auto simp: row_head_def input_reached_def input_calls_def x_arg_def)

lemma input_axes_calls:
  assumes run: "plot_results gy results ps = (r, evs)" and nonempty: "results \<noteq> []"
  shows "case r of
           Inr u \<Rightarrow> \<forall>i<length results. on_axes i 0 evs = input_reached (length results) (results ! i)
         | Inl err \<Rightarrow> \<exists>k<length results. \<forall>i<length results.
             on_axes i 0 evs = (if i \<le> k then input_reached (length results) (results ! i) else [])"
proof -
  let ?n = "length results"
  let ?Inv = "\<lambda>k s. \<forall>i<?n. on_axes i 0 s = (if i < k then input_reached ?n (results ! i) else [])"
  let ?Fail = "\<lambda>(err::py_error) s. \<exists>k<?n. \<forall>i<?n.
      on_axes i 0 s = (if i \<le> k then input_reached ?n (results ! i) else [])"
  let ?Done = "\<lambda>s. \<forall>i<?n. on_axes i 0 s = input_reached ?n (results ! i)"
  show "case r of Inr u \<Rightarrow> ?Done evs | Inl err \<Rightarrow> ?Fail err evs"
  proof (rule plot_results_rule [OF run nonempty, where Inv = ?Inv])
    show "?Inv 0 [Plt (Subplots ?n 2 10 (3 * ?n))]" by simp
  next
    fix k s r1 s1
    assume k: "k < ?n" and inv: "?Inv k s"
      and body: "loop_body gy ps ?n k (results ! k) s = (r1, s1)"
    obtain label time ic mp sp where rk: "results ! k = (label, time, ic, mp, sp)"
      by (cases "results ! k")
    from k have k0: "?n = 1 \<longrightarrow> k = 0" by simp
    have step: "\<forall>i<?n. on_axes i 0 (s @ new) =
        (if i \<le> k then input_reached ?n (results ! i) else [])"
      if "\<And>a. on_axes a 0 new = (if a = k then input_reached ?n (results ! k) else [])" for new
      using inv that by (auto simp: on_axes_append)
    from body [unfolded rk] k0
    show "case r1 of Inr u \<Rightarrow> ?Inv (Suc k) s1 | Inl err \<Rightarrow> ?Fail err s1"
    proof (cases rule: loop_body_cases)
      case (plotfail k')
      have "\<forall>i<?n. on_axes i 0 s1 = (if i \<le> k then input_reached ?n (results ! i) else [])"
        unfolding plotfail(4) by (rule step) (simp add: input_reached_take [OF plotfail(1,2), where sp = sp] rk)
      with plotfail(3) k show ?thesis by auto
    next
      case missing
      have "\<forall>i<?n. on_axes i 0 s1 = (if i \<le> k then input_reached ?n (results ! i) else [])"
        unfolding missing(4) by (rule step) (use missing(1) in \<open>simp add: input_reached_head [where sp = sp] rk\<close>)
      with missing(3) k show ?thesis by auto
    next
      case (bad p err)
      have "\<forall>i<?n. on_axes i 0 (s @ row_head k label (x_arg ?n time) ic mp @ row_mid ?n k p) =
          (if i \<le> k then input_reached ?n (results ! i) else [])"
        by (rule step)
           (use bad(1) k0 in \<open>simp add: on_axes_append input_reached_head [where sp = sp] on_axes_row_mid_0 rk\<close>)
      with bad(4,5) k show ?thesis by auto
    next
      case (ok p xs)
      have "\<forall>i<?n. on_axes i 0 (s @ (row_head k label (x_arg ?n time) ic mp @ row_mid ?n k p) @
            [OnAx k 1 (VLines xs
            (fst (gy (on_axes k 1 (s @ row_head k label (x_arg ?n time) ic mp @ row_mid ?n k p))))
            (snd (gy (on_axes k 1 (s @ row_head k label (x_arg ?n time) ic mp @ row_mid ?n k p))))
            ''r'' (line_width ?n) (1 / 2))]) =
          (if i \<le> k then input_reached ?n (results ! i) else [])"
        by (rule step)
           (use ok(1) k0 in \<open>simp add: on_axes_append input_reached_head [where sp = sp] on_axes_row_mid_0 rk\<close>)
      with ok(4,5) show ?thesis by (simp add: less_Suc_eq_le)
    qed
  next
    fix s
    assume "?Inv ?n s"
    then show "?Done (s @ [Plt TightLayout, Plt Show])" by (simp add: on_axes_append)
  qed
qed

lemma single_plot_raises:
  assumes run: "plot_results gy [(label, time, ic, mp, sp)] ps = (r, evs)"
    and lens: "seq_len time \<noteq> seq_len ic"
  shows "r = Inl ValueError"
  using assms by (simp add: plot_results_def plt_subplots_def row_single_def ax_plot_xy_def)

subsection \<open>The spike markers\<close>









subsection \<open>The first label without a parameter record\<close>



subsection \<open>The claims about the simulation plot\<close>




text \<open>
  C3. The calls on the input-current axes of row \<open>i\<close>. With exactly one entry the call
  is \<^verbatim>\<open>plot(time, input_current)\<close>: the data are plotted against the time values, and
  when the two lengths differ the library refuses the call with \<^verbatim>\<open>ValueError\<close>, leaving
  only the title. With any other number of entries the call is
  \<^verbatim>\<open>plot(input_current)\<close>: the data are plotted against the sample index. The axes of a
  row hold either no call (the row was not reached) or exactly these calls; they hold
  them for the first row always and for every row when the call returns.
\<close>

theorem plot_results_input_current_axis:
  assumes "i < length results" and "results ! i = (label, time, ic, mp, sp)"
  shows "(on_axes i 0 (snd (plot_results gy results ps)) = [] \<or>
          on_axes i 0 (snd (plot_results gy results ps)) =
            (if length results = 1 \<and> seq_len time \<noteq> seq_len ic
             then [SetTitle (label @ '' - Input Current'')]
             else [SetTitle (label @ '' - Input Current''),
                   AxPlot (if length results = 1 then Some time else None) ic,
                   SetXLabel ''Timesteps'',
                   SetYLabel ''Current''])) \<and>
         (i = 0 \<or> fst (plot_results gy results ps) = Inr () \<longrightarrow>
            on_axes i 0 (snd (plot_results gy results ps)) \<noteq> []) \<and>
         (length results = 1 \<and> seq_len time \<noteq> seq_len ic \<longrightarrow>
            fst (plot_results gy results ps) = Inl ValueError)"
proof -
  obtain r evs where run: "plot_results gy results ps = (r, evs)"
    by (cases "plot_results gy results ps")
  from assms(1) have nonempty: "results \<noteq> []" by auto
  let ?full = "if length results = 1 \<and> seq_len time \<noteq> seq_len ic
       then [SetTitle (label @ '' - Input Current'')]
       else [SetTitle (label @ '' - Input Current''),
             AxPlot (if length results = 1 then Some time else None) ic,
             SetXLabel ''Timesteps'', SetYLabel ''Current'']"
  have full: "input_reached (length results) (results ! i) = ?full"
    by (simp add: input_reached_def input_calls_def assms(2))
  have nonnil: "?full \<noteq> []" by simp
  have cases: "on_axes i 0 evs = [] \<or> on_axes i 0 evs = ?full"
    and reached: "i = 0 \<or> r = Inr () \<longrightarrow> on_axes i 0 evs = ?full"
  proof -
    show "on_axes i 0 evs = [] \<or> on_axes i 0 evs = ?full"
    proof (cases r)
      case (Inr u)
      with input_axes_calls [OF run nonempty] assms(1) show ?thesis
        unfolding full [symmetric] by simp
    next
      case (Inl err)
      with input_axes_calls [OF run nonempty] obtain k where
        "\<forall>i<length results. on_axes i 0 evs =
           (if i \<le> k then input_reached (length results) (results ! i) else [])"
        by auto
      with assms(1) have "on_axes i 0 evs =
          (if i \<le> k then input_reached (length results) (results ! i) else [])" by blast
      then show ?thesis unfolding full [symmetric] by (cases "i \<le> k") simp_all
    qed
    show "i = 0 \<or> r = Inr () \<longrightarrow> on_axes i 0 evs = ?full"
    proof (cases r)
      case (Inr u)
      with input_axes_calls [OF run nonempty] assms(1) show ?thesis
        unfolding full [symmetric] by simp
    next
      case (Inl err)
      with input_axes_calls [OF run nonempty] obtain k where
        "\<forall>i<length results. on_axes i 0 evs =
           (if i \<le> k then input_reached (length results) (results ! i) else [])"
        by auto
      with assms(1) have "on_axes i 0 evs =
          (if i \<le> k then input_reached (length results) (results ! i) else [])" by blast
      with Inl show ?thesis unfolding full [symmetric] by auto
    qed
  qed
  have raises: "r = Inl ValueError" if "length results = 1" "seq_len time \<noteq> seq_len ic"
  proof -
    from that(1) assms have "results = [(label, time, ic, mp, sp)]"
      by (cases results) auto
    with run that(2) show ?thesis by (auto dest: single_plot_raises)
  qed
  from reached nonnil have r2: "i = 0 \<or> r = Inr () \<longrightarrow> on_axes i 0 evs \<noteq> []"
    by metis
  show ?thesis
    unfolding run fst_conv snd_conv using cases r2 raises by blast
qed

theorem plot_results_input_current_axis_witness:
  "on_axes 0 0 (snd (plot_results unit_ylim [demo_entry ''a''] demo_params)) =
     [SetTitle ''a - Input Current'', AxPlot (Some (Tensor [0, 1, 2])) (Tensor [5, 5, 5]),
      SetXLabel ''Timesteps'', SetYLabel ''Current''] \<and>
   fst (plot_results unit_ylim [demo_entry ''a'', demo_entry ''b''] demo_params) = Inr () \<and>
   on_axes 1 0 (snd (plot_results unit_ylim [demo_entry ''a'', demo_entry ''b''] demo_params)) =
     [SetTitle ''b - Input Current'', AxPlot None (Tensor [5, 5, 5]),
      SetXLabel ''Timesteps'', SetYLabel ''Current''] \<and>
   fst (plot_results unit_ylim
          [(''a'', Tensor [0, 1, 2], Tensor [5, 5], Tensor [0, 2, 0], Tensor [0, 1, 0])]
          demo_params) = Inl ValueError \<and>
   on_axes 0 0 (snd (plot_results unit_ylim
          [(''a'', Tensor [0, 1, 2], Tensor [5, 5], Tensor [0, 2, 0], Tensor [0, 1, 0])]
          demo_params)) = [SetTitle ''a - Input Current'']"
proof -
  have ok: "fst (plot_results unit_ylim [demo_entry ''a'', demo_entry ''b''] demo_params) = Inr ()"
    by (simp add: plot_results_def plt_subplots_def row_multi_def spike_times_def
        demo_entry_def demo_params_def)
  have one: "(0::nat) < length [demo_entry ''a'']"
    "[demo_entry ''a''] ! 0 = (''a'', Tensor [0, 1, 2], Tensor [5, 5, 5], Tensor [0, 2, 0], Tensor [0, 1, 0])"
    by (simp_all add: demo_entry_def)
  have two: "(1::nat) < length [demo_entry ''a'', demo_entry ''b'']"
    "[demo_entry ''a'', demo_entry ''b''] ! 1 =
       (''b'', Tensor [0, 1, 2], Tensor [5, 5, 5], Tensor [0, 2, 0], Tensor [0, 1, 0])"
    by (simp_all add: demo_entry_def)
  have bad: "(0::nat) < length [(''a'', Tensor [0, 1, 2], Tensor [5, 5], Tensor [0, 2, 0], Tensor [0, 1, 0])]"
    "[(''a'', Tensor [0, 1, 2], Tensor [5, 5], Tensor [0, 2, 0], Tensor [0, 1, 0])] ! 0 =
       (''a'', Tensor [0, 1, 2], Tensor [5, 5], Tensor [0, 2, 0], Tensor [0, 1, 0])"
    by simp_all
  from plot_results_input_current_axis [OF one, of unit_ylim demo_params]
    plot_results_input_current_axis [OF two, of unit_ylim demo_params]
    plot_results_input_current_axis [OF bad, of unit_ylim demo_params] ok
  show ?thesis by auto
qed










end
